theory Spec2Isabelle
  imports Complex_Main
begin

section \<open>Python values used by the tracker\<close>

text \<open>
  Exceptions are values. \<open>HTTPException\<close> carries the status code and the detail
  string the handlers raise it with; the other constructors are the built-in
  exceptions that the modelled code can raise, with the name or message they carry.
\<close>

datatype error =
    HTTPException nat string
  | UnboundLocalError string
  | OverflowError string

text \<open>
  A \<open>datetime\<close> is a proleptic Gregorian day number (\<open>date.toordinal()\<close>,
  day 1 is 0001-01-01 and day 3652059 is 9999-12-31) together with the microsecond
  within that day. The clock reading \<open>datetime.now()\<close> is an argument of every
  function that reads it.
\<close>

record datetime =
  ordinal :: int
  microsecond_of_day :: nat

definition MAXORDINAL :: int where
  "MAXORDINAL = 3652059"

text \<open>\<open>timedelta(days=n)\<close>: the constructor rejects more than 999999999 days.\<close>

definition timedelta :: "int \<Rightarrow> error + int" where
  "timedelta days =
     (if \<bar>days\<bar> > 999999999 then Inl (OverflowError ''timedelta # of days is too large'')
      else Inr days)"

text \<open>\<open>d + timedelta(days=n)\<close>: the sum must again be a date of the years 1 to 9999.\<close>

definition datetime_add :: "datetime \<Rightarrow> int \<Rightarrow> error + datetime" where
  "datetime_add d days =
     (if 1 \<le> ordinal d + days \<and> ordinal d + days \<le> MAXORDINAL
      then Inr (d\<lparr>ordinal := ordinal d + days\<rparr>)
      else Inl (OverflowError ''date value out of range''))"

text \<open>
  Python's \<open>float\<close> is modelled by \<open>real\<close>: the arithmetic of the source is
  read exactly, rounding to binary64 and the non-finite values are not modelled.
  \<open>int(x)\<close> of a float truncates toward zero.
\<close>

definition int_of_float :: "real \<Rightarrow> int" where
  "int_of_float x = (if 0 \<le> x then \<lfloor>x\<rfloor> else \<lceil>x\<rceil>)"

section \<open>utils/sm2.py\<close>

text \<open>
  \<open>calculate_next_review\<close>. The local \<open>new_ease_factor\<close> is bound only in the
  \<open>else\<close> branch, so it is an option here: reading it unbound in the \<open>return\<close>
  statement raises \<open>UnboundLocalError\<close>. The next review date is computed before
  the \<open>return\<close> statement, in the order of the source.
\<close>

definition calculate_next_review ::
  "datetime \<Rightarrow> int \<Rightarrow> int \<Rightarrow> real \<Rightarrow> int \<Rightarrow> error + (int \<times> real \<times> int \<times> datetime)" where
  "calculate_next_review now quality interval ease_factor repetition_count =
     (let (new_interval, new_ease_factor, new_repetition_count) =
        (if quality < 3 then (1, None, 0)
         else
           let nef = ease_factor +
                 (0.1 - real_of_int (5 - quality) * (0.08 + real_of_int (5 - quality) * 0.02));
               nef = (if nef < 1.3 then 1.3 else nef);
               ni = (if repetition_count = 0 then 1
                     else if repetition_count = 1 then 6
                     else int_of_float (real_of_int interval * nef))
           in (ni, Some nef, repetition_count + 1))
      in case timedelta new_interval of
           Inl e \<Rightarrow> Inl e
         | Inr delta \<Rightarrow>
             (case datetime_add now delta of
                Inl e \<Rightarrow> Inl e
              | Inr next_review_date \<Rightarrow>
                  (case new_ease_factor of
                     None \<Rightarrow> Inl (UnboundLocalError ''new_ease_factor'')
                   | Some nef \<Rightarrow>
                       Inr (new_interval, nef, new_repetition_count, next_review_date))))"

section \<open>Python and ORM helpers\<close>

text \<open>\<open>str(n)\<close> for an \<open>int\<close>: the decimal digits, with a minus sign when negative.\<close>

definition digit_char :: "nat \<Rightarrow> char" where
  "digit_char d = ''0123456789'' ! d"

function str_nat :: "nat \<Rightarrow> string" where
  "str_nat n = (if n < 10 then [digit_char n] else str_nat (n div 10) @ [digit_char (n mod 10)])"
  by pat_completeness auto
termination
  by (relation "measure (\<lambda>n. n)") auto

definition str_int :: "int \<Rightarrow> string" where
  "str_int i = (if i < 0 then CHR ''-'' # str_nat (nat (- i)) else str_nat (nat i))"

text \<open>\<open>d.get(k, default)\<close> on a dict.\<close>

definition dict_get :: "('k \<rightharpoonup> 'v) \<Rightarrow> 'k \<Rightarrow> 'v \<Rightarrow> 'v" where
  "dict_get d k fallback = (case d k of None \<Rightarrow> fallback | Some v \<Rightarrow> v)"

text \<open>
  \<open>round(x, ndigits)\<close> on a float: to the nearest multiple of \<open>10 ** -ndigits\<close>,
  a tie going to the even neighbour.
\<close>

definition round_half_even :: "real \<Rightarrow> int" where
  "round_half_even x =
     (if x - real_of_int \<lfloor>x\<rfloor> < 1 / 2 then \<lfloor>x\<rfloor>
      else if 1 / 2 < x - real_of_int \<lfloor>x\<rfloor> then \<lfloor>x\<rfloor> + 1
      else if even \<lfloor>x\<rfloor> then \<lfloor>x\<rfloor> else \<lfloor>x\<rfloor> + 1)"

definition py_round :: "real \<Rightarrow> nat \<Rightarrow> real" where
  "py_round x ndigits = real_of_int (round_half_even (x * 10 ^ ndigits)) / 10 ^ ndigits"

text \<open>
  A table is the list of its rows. An object loaded with \<open>.first()\<close> and changed is
  written back by \<open>db.commit()\<close> in place of the row it was loaded from, with every
  change the handler made to it, the one made in place to a JSON column included (the
  ORM's own change tracking is not modelled); a handler that raises commits nothing.
  A new row gets the next primary key.
\<close>

fun replace_first :: "('a \<Rightarrow> bool) \<Rightarrow> 'a \<Rightarrow> 'a list \<Rightarrow> 'a list" where
  "replace_first P y [] = []"
| "replace_first P y (x # xs) = (if P x then y # xs else x # replace_first P y xs)"




section \<open>app/models.py\<close>

text \<open>
  The rows. The text and image columns of a mistake and the server-maintained
  \<open>created_at\<close> and \<open>updated_at\<close> are left out: no modelled handler reads them.
  \<open>answers\<close> is the JSON object of an exam, from \<open>str(mistake_id)\<close> to a boolean.
\<close>

record GREMistake =
  id' :: int
  section' :: string
  topic :: string
  sub_topic :: "string option"
  kmf_section :: "int option"
  kmf_problem_set :: "int option"
  error_type :: string
  next_review_date :: datetime
  interval :: int
  ease_factor :: real
  repetition_count :: int
  mastered :: bool
  total_attempts :: "int option"
  got_correct :: bool

record ExamSession =
  id' :: int
  section' :: "string option"
  topic :: "string option"
  sub_topic :: "string option"
  error_type :: "string option"
  kmf_section :: "int option"
  kmf_problem_set :: "int option"
  timer_minutes :: "int option"
  total_problems :: int
  correct_count :: int
  incorrect_count :: int
  started_at :: datetime
  completed_at :: "datetime option"
  mistake_ids :: "int list"
  answers :: "string \<rightharpoonup> bool"

record database =
  gre_mistakes :: "GREMistake list"
  exam_sessions :: "ExamSession list"

section \<open>app/main.py: reviews\<close>

record ReviewSubmit =
  quality :: int

text \<open>
  \<open>submit_review\<close>. The result is the response (the updated mistake, or the exception
  that leaves the handler) and the database after the request.
\<close>

definition submit_review ::
  "database \<Rightarrow> datetime \<Rightarrow> int \<Rightarrow> ReviewSubmit \<Rightarrow> (error + GREMistake) \<times> database" where
  "submit_review db now mistake_id review =
     (case find (\<lambda>m. GREMistake.id' m = mistake_id) (gre_mistakes db) of
        None \<Rightarrow> (Inl (HTTPException 404 ''Mistake not found''), db)
      | Some mistake \<Rightarrow>
          if GREMistake.mastered mistake
          then (Inl (HTTPException 400 ''This item is already mastered''), db)
          else
            let mistake = mistake\<lparr>total_attempts :=
                  Some ((case total_attempts mistake of None \<Rightarrow> 0 | Some n \<Rightarrow> n) + 1)\<rparr>;
                mistake = (if quality review \<ge> 4 then mistake\<lparr>got_correct := True\<rparr> else mistake)
            in case calculate_next_review now (quality review) (interval mistake)
                      (ease_factor mistake) (repetition_count mistake) of
                 Inl e \<Rightarrow> (Inl e, db)
               | Inr (new_interval, new_ease_factor, new_repetition_count, next_review_date') \<Rightarrow>
                   let mistake = mistake\<lparr>interval := new_interval,
                                         ease_factor := new_ease_factor,
                                         repetition_count := new_repetition_count,
                                         next_review_date := next_review_date'\<rparr>;
                       mistake = (if new_repetition_count \<ge> 5
                                  then mistake\<lparr>GREMistake.mastered := True\<rparr> else mistake)
                   in (Inr mistake,
                       db\<lparr>gre_mistakes :=
                            replace_first (\<lambda>m. GREMistake.id' m = mistake_id) mistake
                              (gre_mistakes db)\<rparr>))"

section \<open>app/main.py: exam sessions\<close>

record ExamSessionCreate =
  sections :: "string list option"
  topics :: "string list option"
  sub_topics :: "string list option"
  error_types :: "string list option"
  kmf_sections :: "int list option"
  kmf_problem_sets :: "int list option"
  timer_minutes :: "int option"


record ExamAnswerSubmit =
  mistake_id :: int
  is_correct :: bool

text \<open>
  \<open>submit_exam_answer\<close>. An empty \<open>answers\<close> is first replaced by a new empty dict,
  which is the same value. The counters move only for a new answer or a changed one.
\<close>

definition submit_exam_answer ::
  "database \<Rightarrow> int \<Rightarrow> ExamAnswerSubmit \<Rightarrow> (error + ExamSession) \<times> database" where
  "submit_exam_answer db exam_id answer =
     (case find (\<lambda>e. ExamSession.id' e = exam_id) (exam_sessions db) of
        None \<Rightarrow> (Inl (HTTPException 404 ''Exam session not found''), db)
      | Some exam \<Rightarrow>
          if completed_at exam \<noteq> None
          then (Inl (HTTPException 400 ''Exam session already completed''), db)
          else
            let mistake_key = str_int (mistake_id answer);
                was_already_answered = (answers exam mistake_key \<noteq> None);
                previous_answer = answers exam mistake_key;
                exam = exam\<lparr>answers := (answers exam)(mistake_key \<mapsto> is_correct answer)\<rparr>;
                exam =
                  (if \<not> was_already_answered then
                     (if is_correct answer
                      then exam\<lparr>correct_count := correct_count exam + 1\<rparr>
                      else exam\<lparr>incorrect_count := incorrect_count exam + 1\<rparr>)
                   else if previous_answer \<noteq> Some (is_correct answer) then
                     (if previous_answer = Some True
                      then exam\<lparr>correct_count := correct_count exam - 1,
                                incorrect_count := incorrect_count exam + 1\<rparr>
                      else exam\<lparr>incorrect_count := incorrect_count exam - 1,
                                correct_count := correct_count exam + 1\<rparr>)
                   else exam)
            in (Inr exam,
                db\<lparr>exam_sessions :=
                     replace_first (\<lambda>e. ExamSession.id' e = exam_id) exam (exam_sessions db)\<rparr>))"

definition complete_exam ::
  "database \<Rightarrow> datetime \<Rightarrow> int \<Rightarrow> (error + ExamSession) \<times> database" where
  "complete_exam db now exam_id =
     (case find (\<lambda>e. ExamSession.id' e = exam_id) (exam_sessions db) of
        None \<Rightarrow> (Inl (HTTPException 404 ''Exam session not found''), db)
      | Some exam \<Rightarrow>
          if completed_at exam \<noteq> None
          then (Inl (HTTPException 400 ''Exam session already completed''), db)
          else
            let exam = exam\<lparr>completed_at := Some now\<rparr>
            in (Inr exam,
                db\<lparr>exam_sessions :=
                     replace_first (\<lambda>e. ExamSession.id' e = exam_id) exam (exam_sessions db)\<rparr>))"


section \<open>app/main.py: exam statistics\<close>

text \<open>The per-section part and the whole of the dict that the statistics endpoint returns.\<close>

record section_statistics =
  total_problems :: int
  correct :: int
  incorrect :: int
  percentage :: real
  exam_count :: int
  total_mistakes :: int
  mastered :: int
  in_progress :: int

record statistics =
  quant :: section_statistics
  verbal :: section_statistics
  total_exams :: int

text \<open>The counters of \<open>get_exam_statistics\<close>: those kept over all exams, and those reset for each exam.\<close>

record counters =
  quant_total_problems :: int
  quant_correct :: int
  quant_incorrect :: int
  quant_exam_ids :: "int set"
  verbal_total_problems :: int
  verbal_correct :: int
  verbal_incorrect :: int
  verbal_exam_ids :: "int set"

record exam_counters =
  quant_in_exam :: int
  quant_correct_in_exam :: int
  verbal_in_exam :: int
  verbal_correct_in_exam :: int

text \<open>The inner loop, \<open>for mistake_id in exam.mistake_ids\<close>.\<close>

fun for_mistake_ids ::
  "database \<Rightarrow> ExamSession \<Rightarrow> int list \<Rightarrow> counters \<times> exam_counters \<Rightarrow> counters \<times> exam_counters" where
  "for_mistake_ids db exam [] s = s"
| "for_mistake_ids db exam (mistake_id' # rest) (c, x) =
     for_mistake_ids db exam rest
       (case find (\<lambda>m. GREMistake.id' m = mistake_id') (gre_mistakes db) of
          None \<Rightarrow> (c, x)
        | Some mistake \<Rightarrow>
            let is_correct' = dict_get (answers exam) (str_int mistake_id') False
            in if GREMistake.section' mistake = ''Quant'' then
                 let x = x\<lparr>quant_in_exam := quant_in_exam x + 1\<rparr>;
                     c = c\<lparr>quant_total_problems := quant_total_problems c + 1\<rparr>
                 in if is_correct'
                    then (c\<lparr>quant_correct := quant_correct c + 1\<rparr>,
                          x\<lparr>quant_correct_in_exam := quant_correct_in_exam x + 1\<rparr>)
                    else (c\<lparr>quant_incorrect := quant_incorrect c + 1\<rparr>, x)
               else if GREMistake.section' mistake = ''Verbal'' then
                 let x = x\<lparr>verbal_in_exam := verbal_in_exam x + 1\<rparr>;
                     c = c\<lparr>verbal_total_problems := verbal_total_problems c + 1\<rparr>
                 in if is_correct'
                    then (c\<lparr>verbal_correct := verbal_correct c + 1\<rparr>,
                          x\<lparr>verbal_correct_in_exam := verbal_correct_in_exam x + 1\<rparr>)
                    else (c\<lparr>verbal_incorrect := verbal_incorrect c + 1\<rparr>, x)
               else (c, x))"

text \<open>The outer loop, \<open>for exam in all_exams\<close>.\<close>

fun for_all_exams :: "database \<Rightarrow> ExamSession list \<Rightarrow> counters \<Rightarrow> counters" where
  "for_all_exams db [] c = c"
| "for_all_exams db (exam # rest) c =
     (let (c, x) = for_mistake_ids db exam (mistake_ids exam)
                     (c, \<lparr>quant_in_exam = 0, quant_correct_in_exam = 0,
                          verbal_in_exam = 0, verbal_correct_in_exam = 0\<rparr>);
          c = (if quant_in_exam x > 0
               then c\<lparr>quant_exam_ids := insert (ExamSession.id' exam) (quant_exam_ids c)\<rparr>
               else c);
          c = (if verbal_in_exam x > 0
               then c\<lparr>verbal_exam_ids := insert (ExamSession.id' exam) (verbal_exam_ids c)\<rparr>
               else c)
      in for_all_exams db rest c)"

definition get_exam_statistics :: "database \<Rightarrow> statistics" where
  "get_exam_statistics db =
     (let all_exams = filter (\<lambda>e. completed_at e \<noteq> None) (exam_sessions db);
          c = for_all_exams db all_exams
                \<lparr>quant_total_problems = 0, quant_correct = 0, quant_incorrect = 0,
                 quant_exam_ids = {},
                 verbal_total_problems = 0, verbal_correct = 0, verbal_incorrect = 0,
                 verbal_exam_ids = {}\<rparr>;
          quant_percentage =
            (if quant_total_problems c > 0
             then real_of_int (quant_correct c) / real_of_int (quant_total_problems c) * 100
             else 0);
          verbal_percentage =
            (if verbal_total_problems c > 0
             then real_of_int (verbal_correct c) / real_of_int (verbal_total_problems c) * 100
             else 0);
          all_mistakes = gre_mistakes db;
          quant_mistakes = filter (\<lambda>m. GREMistake.section' m = ''Quant'') all_mistakes;
          verbal_mistakes = filter (\<lambda>m. GREMistake.section' m = ''Verbal'') all_mistakes;
          quant_mastered = int (length (filter GREMistake.mastered quant_mistakes));
          verbal_mastered = int (length (filter GREMistake.mastered verbal_mistakes))
      in \<lparr>quant = \<lparr>section_statistics.total_problems = quant_total_problems c,
                   correct = quant_correct c,
                   incorrect = quant_incorrect c,
                   percentage = py_round quant_percentage 1,
                   exam_count = int (card (quant_exam_ids c)),
                   total_mistakes = int (length quant_mistakes),
                   section_statistics.mastered = quant_mastered,
                   in_progress = int (length quant_mistakes) - quant_mastered\<rparr>,
          verbal = \<lparr>section_statistics.total_problems = verbal_total_problems c,
                    correct = verbal_correct c,
                    incorrect = verbal_incorrect c,
                    percentage = py_round verbal_percentage 1,
                    exam_count = int (card (verbal_exam_ids c)),
                    total_mistakes = int (length verbal_mistakes),
                    section_statistics.mastered = verbal_mastered,
                    in_progress = int (length verbal_mistakes) - verbal_mastered\<rparr>,
          total_exams = int (length all_exams)\<rparr>)"

section \<open>Example data\<close>

text \<open>Concrete rows and requests, at which the theorems below are instantiated.\<close>

definition example_now :: datetime where
  "example_now = \<lparr>ordinal = 739923, microsecond_of_day = 0\<rparr>"

definition example_mistake :: "int \<Rightarrow> string \<Rightarrow> int \<Rightarrow> bool \<Rightarrow> GREMistake" where
  "example_mistake i s rc ms =
     \<lparr>GREMistake.id' = i, section' = s, topic = ''Geometry'', sub_topic = None,
      kmf_section = None, kmf_problem_set = None, error_type = ''Silly'',
      next_review_date = example_now, interval = 6, ease_factor = 2.5,
      repetition_count = rc, GREMistake.mastered = ms, total_attempts = Some rc,
      got_correct = False\<rparr>"

definition example_exam ::
  "int \<Rightarrow> int list \<Rightarrow> (string \<times> bool) list \<Rightarrow> int \<Rightarrow> int \<Rightarrow> datetime option \<Rightarrow> ExamSession" where
  "example_exam i ids given c w done =
     \<lparr>ExamSession.id' = i, section' = None, topic = None, sub_topic = None,
      error_type = None, kmf_section = None, kmf_problem_set = None,
      ExamSession.timer_minutes = None, total_problems = int (length ids),
      correct_count = c, incorrect_count = w, started_at = example_now,
      completed_at = done, mistake_ids = ids, answers = map_of given\<rparr>"






section \<open>The review scheduler\<close>

lemma calculate_next_review_lapse:
  "q < 3 \<Longrightarrow> calculate_next_review now q iv ef rc =
     (case datetime_add now 1 of
        Inl e \<Rightarrow> Inl e
      | Inr d \<Rightarrow> Inl (UnboundLocalError ''new_ease_factor''))"
  by (simp add: calculate_next_review_def timedelta_def split: sum.splits)

lemma calculate_next_review_lapse_no_result:
  "q < 3 \<Longrightarrow> calculate_next_review now q iv ef rc \<noteq> Inr r"
  by (simp add: calculate_next_review_lapse split: sum.splits)

lemma success_branch_unfold:
  assumes "3 \<le> q"
    and nef: "nef = max 1.3 (ef + (0.1 - real_of_int (5 - q) * (0.08 + real_of_int (5 - q) * 0.02)))"
    and ni: "ni = (if rc = 0 then 1 else if rc = 1 then 6 else int_of_float (real_of_int iv * nef))"
  shows "calculate_next_review now q iv ef rc =
      (case timedelta ni of
         Inl e \<Rightarrow> Inl e
       | Inr delta \<Rightarrow>
           (case datetime_add now delta of
              Inl e \<Rightarrow> Inl e
            | Inr d \<Rightarrow> Inr (ni, nef, rc + 1, d)))"
proof -
  have "\<not> q < 3" using assms(1) by simp
  then show ?thesis
    unfolding calculate_next_review_def nef ni
    by (simp add: Let_def max_def not_less split: sum.splits)
qed

lemma calculate_next_review_result:
  assumes "calculate_next_review now q iv ef rc = Inr (ni, nef, nrc, d)"
  shows "3 \<le> q \<and> nrc = rc + 1 \<and>
         nef = max 1.3 (ef + (0.1 - real_of_int (5 - q) * (0.08 + real_of_int (5 - q) * 0.02)))"
proof -
  have q: "3 \<le> q"
    using assms calculate_next_review_lapse_no_result [of q now iv ef rc] by force
  from assms show ?thesis
    unfolding success_branch_unfold [OF q refl refl]
    using q by (auto split: sum.splits)
qed

lemma ease_delta_mono:
  assumes "3 \<le> q1" "q1 \<le> q2" "q2 \<le> (5::int)"
  shows "0.1 - real_of_int (5 - q1) * (0.08 + real_of_int (5 - q1) * 0.02)
       \<le> 0.1 - real_of_int (5 - q2) * (0.08 + real_of_int (5 - q2) * 0.02)"
proof -
  have "q1 = 3 \<or> q1 = 4 \<or> q1 = 5" "q2 = 3 \<or> q2 = 4 \<or> q2 = 5"
    using assms by auto
  then show ?thesis using assms(2) by auto
qed

text \<open>
  C1. Claimed: a lapse (quality 1 or 2) returns interval 1, repetition count 0 and the
  ease factor unchanged, without an error. In the lapse branch \<open>new_ease_factor\<close>
  is never bound, so the \<open>return\<close> statement raises \<open>UnboundLocalError\<close>: at
  quality 2, interval 30, ease factor 2.8 and repetition count 4 no tuple is returned.
\<close>

theorem calculate_next_review_lapse_raises:
  "calculate_next_review \<lparr>ordinal = 739923, microsecond_of_day = 0\<rparr> 2 30 2.8 4 =
     Inl (UnboundLocalError ''new_ease_factor'')"
  by (simp add: calculate_next_review_def timedelta_def datetime_add_def MAXORDINAL_def)




text \<open>
  C8. For a fixed prior state, the new ease factor is monotone in the quality over
  3..5: when the calls at qualities \<open>q1 \<le> q2\<close> both return, the ease factor returned
  at \<open>q2\<close> is at least the one returned at \<open>q1\<close>.
\<close>

theorem new_ease_factor_monotone:
  assumes "3 \<le> q1" and "q1 \<le> q2" and "q2 \<le> 5"
    and "calculate_next_review now q1 iv ef rc = Inr (i1, ef1, r1, d1)"
    and "calculate_next_review now q2 iv ef rc = Inr (i2, ef2, r2, d2)"
  shows "ef1 \<le> ef2"
proof -
  from calculate_next_review_result [OF assms(4)]
  have e1: "ef1 = max 1.3 (ef + (0.1 - real_of_int (5 - q1) * (0.08 + real_of_int (5 - q1) * 0.02)))"
    by simp
  from calculate_next_review_result [OF assms(5)]
  have e2: "ef2 = max 1.3 (ef + (0.1 - real_of_int (5 - q2) * (0.08 + real_of_int (5 - q2) * 0.02)))"
    by simp
  show ?thesis
    unfolding e1 e2 using ease_delta_mono [OF assms(1-3)] by (simp add: max_def)
qed

theorem new_ease_factor_monotone_witness:
  "calculate_next_review \<lparr>ordinal = 739923, microsecond_of_day = 0\<rparr> 3 6 2.5 2 =
     Inr (14, 2.36, 3, \<lparr>ordinal = 739937, microsecond_of_day = 0\<rparr>) \<and>
   calculate_next_review \<lparr>ordinal = 739923, microsecond_of_day = 0\<rparr> 5 6 2.5 2 =
     Inr (15, 2.6, 3, \<lparr>ordinal = 739938, microsecond_of_day = 0\<rparr>) \<and>
   (2.36 :: real) \<le> 2.6"
proof -
  have a: "calculate_next_review \<lparr>ordinal = 739923, microsecond_of_day = 0\<rparr> 3 6 2.5 2 =
     Inr (14, 2.36, 3, \<lparr>ordinal = 739937, microsecond_of_day = 0\<rparr>)"
    by (simp add: calculate_next_review_def timedelta_def datetime_add_def MAXORDINAL_def
        int_of_float_def Let_def)
  have b: "calculate_next_review \<lparr>ordinal = 739923, microsecond_of_day = 0\<rparr> 5 6 2.5 2 =
     Inr (15, 2.6, 3, \<lparr>ordinal = 739938, microsecond_of_day = 0\<rparr>)"
    by (simp add: calculate_next_review_def timedelta_def datetime_add_def MAXORDINAL_def
        int_of_float_def Let_def)
  have "(3::int) \<le> 3" "(3::int) \<le> 5" "(5::int) \<le> 5" by simp_all
  from new_ease_factor_monotone [OF this a b] a b show ?thesis by simp
qed

section \<open>Rows found by primary key\<close>

lemma find_SomeD: "find P xs = Some x \<Longrightarrow> P x"
  by (induction xs) (auto split: if_splits)

lemma find_replace_first_same:
  "find P xs = Some x \<Longrightarrow> P y \<Longrightarrow> find P (replace_first P y xs) = Some y"
  by (induction xs) (auto split: if_splits)

lemma find_replace_first_other:
  "(\<And>z. P z \<Longrightarrow> \<not> Q z) \<Longrightarrow> \<not> Q y \<Longrightarrow> find Q (replace_first P y xs) = find Q xs"
  by (induction xs) auto

lemma find_by_id_replace_first_mistake:
  assumes "GREMistake.id' y = k" and "j \<noteq> k"
  shows "find (\<lambda>m. GREMistake.id' m = j) (replace_first (\<lambda>m. GREMistake.id' m = k) y xs) =
         find (\<lambda>m. GREMistake.id' m = j) xs"
  by (rule find_replace_first_other) (use assms in auto)

lemma find_by_id_replace_first_exam:
  assumes "ExamSession.id' y = k" and "j \<noteq> k"
  shows "find (\<lambda>e. ExamSession.id' e = j) (replace_first (\<lambda>e. ExamSession.id' e = k) y xs) =
         find (\<lambda>e. ExamSession.id' e = j) xs"
  by (rule find_replace_first_other) (use assms in auto)

section \<open>Review submission\<close>

lemma submit_review_not_found:
  "find (\<lambda>m. GREMistake.id' m = k) (gre_mistakes db) = None \<Longrightarrow>
   submit_review db now k review = (Inl (HTTPException 404 ''Mistake not found''), db)"
  by (simp add: submit_review_def)

lemma submit_review_already_mastered:
  "find (\<lambda>m. GREMistake.id' m = k) (gre_mistakes db) = Some m \<Longrightarrow> GREMistake.mastered m \<Longrightarrow>
   submit_review db now k review = (Inl (HTTPException 400 ''This item is already mastered''), db)"
  by (simp add: submit_review_def)

lemma mastered_update_False:
  "\<not> GREMistake.mastered r \<Longrightarrow> r\<lparr>GREMistake.mastered := False\<rparr> = r"
  by (cases r) simp

lemma got_correct_update_same:
  "got_correct r = b \<Longrightarrow> r\<lparr>got_correct := b\<rparr> = r"
  by (cases r) simp

lemma submit_review_open:
  assumes "find (\<lambda>m. GREMistake.id' m = k) (gre_mistakes db) = Some m"
    and "\<not> GREMistake.mastered m"
  shows "submit_review db now k review =
     (case calculate_next_review now (quality review) (interval m) (ease_factor m)
             (repetition_count m) of
        Inl e \<Rightarrow> (Inl e, db)
      | Inr (ni, nef, nrc, d) \<Rightarrow>
          (let m' = m\<lparr>total_attempts :=
                       Some ((case total_attempts m of None \<Rightarrow> 0 | Some n \<Rightarrow> n) + 1),
                     got_correct := (got_correct m \<or> 4 \<le> quality review),
                     interval := ni, ease_factor := nef, repetition_count := nrc,
                     next_review_date := d, GREMistake.mastered := (5 \<le> nrc)\<rparr>
           in (Inr m',
               db\<lparr>gre_mistakes :=
                    replace_first (\<lambda>m. GREMistake.id' m = k) m' (gre_mistakes db)\<rparr>)))"
proof (cases "calculate_next_review now (quality review) (interval m) (ease_factor m)
             (repetition_count m)")
  case (Inl e)
  then show ?thesis using assms by (simp add: submit_review_def Let_def)
next
  case (Inr r)
  obtain ni nef nrc d where r: "r = (ni, nef, nrc, d)" by (cases r) auto
  show ?thesis
  proof (cases "4 \<le> quality review")
    case True
    show ?thesis
    proof (cases "5 \<le> nrc")
      case True
      with \<open>4 \<le> quality review\<close> Inr r assms show ?thesis
        by (simp add: submit_review_def Let_def mastered_update_False got_correct_update_same)
    next
      case False
      with \<open>4 \<le> quality review\<close> Inr r assms show ?thesis
        by (simp add: submit_review_def Let_def mastered_update_False got_correct_update_same)
    qed
  next
    case False
    show ?thesis
    proof (cases "5 \<le> nrc")
      case True
      with \<open>\<not> 4 \<le> quality review\<close> Inr r assms show ?thesis
        by (simp add: submit_review_def Let_def mastered_update_False got_correct_update_same)
    next
      case False
      with \<open>\<not> 4 \<le> quality review\<close> Inr r assms show ?thesis
        by (simp add: submit_review_def Let_def mastered_update_False got_correct_update_same)
    qed
  qed
qed


lemma submit_review_keeps_other:
  assumes "find (\<lambda>m. GREMistake.id' m = j) (gre_mistakes db) = Some mj"
    and "j \<noteq> k"
  shows "find (\<lambda>m. GREMistake.id' m = j) (gre_mistakes (snd (submit_review db now k review))) = Some mj"
proof (cases "find (\<lambda>m. GREMistake.id' m = k) (gre_mistakes db)")
  case None
  then show ?thesis using assms by (simp add: submit_review_not_found)
next
  case (Some m)
  have idm: "GREMistake.id' m = k" using find_SomeD [OF Some] .
  show ?thesis
  proof (cases "GREMistake.mastered m")
    case True
    then show ?thesis using assms Some by (simp add: submit_review_already_mastered)
  next
    case False
    show ?thesis
      unfolding submit_review_open [OF Some False]
      using assms idm
      by (auto simp: Let_def find_by_id_replace_first_mistake split: sum.splits)
  qed
qed

text \<open>
  C3. A review submitted against a mastered mistake is rejected with the HTTP 400
  ``already mastered'' error and the database stays as it was. A review that is
  accepted was made against a mistake that was not mastered, adds one to its repetition
  count, and leaves it mastered exactly when the new repetition count is 5 or more.
  A mastered mistake is the same row after any review submission, so \<open>mastered\<close>
  never goes back to false that way.
\<close>

theorem submit_review_mastered_rule:
  "(find (\<lambda>m. GREMistake.id' m = k) (gre_mistakes db) = Some m \<and> GREMistake.mastered m \<longrightarrow>
      submit_review db now k review =
        (Inl (HTTPException 400 ''This item is already mastered''), db)) \<and>
   (submit_review db now k review = (Inr m', db') \<longrightarrow>
      (\<exists>m0. find (\<lambda>m. GREMistake.id' m = k) (gre_mistakes db) = Some m0 \<and>
            \<not> GREMistake.mastered m0 \<and>
            repetition_count m' = repetition_count m0 + 1 \<and>
            (GREMistake.mastered m' \<longleftrightarrow> 5 \<le> repetition_count m') \<and>
            find (\<lambda>m. GREMistake.id' m = k) (gre_mistakes db') = Some m')) \<and>
   (find (\<lambda>m. GREMistake.id' m = j) (gre_mistakes db) = Some mj \<and> GREMistake.mastered mj \<longrightarrow>
      find (\<lambda>m. GREMistake.id' m = j) (gre_mistakes (snd (submit_review db now k review))) = Some mj)"
proof (intro conjI impI)
  assume "find (\<lambda>m. GREMistake.id' m = k) (gre_mistakes db) = Some m \<and> GREMistake.mastered m"
  then show "submit_review db now k review =
      (Inl (HTTPException 400 ''This item is already mastered''), db)"
    by (simp add: submit_review_already_mastered)
next
  assume res: "submit_review db now k review = (Inr m', db')"
  show "\<exists>m0. find (\<lambda>m. GREMistake.id' m = k) (gre_mistakes db) = Some m0 \<and>
            \<not> GREMistake.mastered m0 \<and>
            repetition_count m' = repetition_count m0 + 1 \<and>
            (GREMistake.mastered m' \<longleftrightarrow> 5 \<le> repetition_count m') \<and>
            find (\<lambda>m. GREMistake.id' m = k) (gre_mistakes db') = Some m'"
  proof (cases "find (\<lambda>m. GREMistake.id' m = k) (gre_mistakes db)")
    case None
    with res show ?thesis by (simp add: submit_review_not_found)
  next
    case (Some m0)
    have idm: "GREMistake.id' m0 = k" using find_SomeD [OF Some] .
    show ?thesis
    proof (cases "GREMistake.mastered m0")
      case True
      with res Some show ?thesis by (simp add: submit_review_already_mastered)
    next
      case False
      note open_eq = submit_review_open [OF Some False, of now review]
      show ?thesis
      proof (cases "calculate_next_review now (quality review) (interval m0) (ease_factor m0)
             (repetition_count m0)")
        case (Inl e)
        with res open_eq show ?thesis by simp
      next
        case (Inr r)
        obtain ni nef nrc d where r: "r = (ni, nef, nrc, d)" by (cases r) auto
        from calculate_next_review_result [OF Inr [unfolded r]]
        have nrc: "nrc = repetition_count m0 + 1" by simp
        from res open_eq Inr r
        have m': "m' = m0\<lparr>total_attempts :=
                       Some ((case total_attempts m0 of None \<Rightarrow> 0 | Some n \<Rightarrow> n) + 1),
                     got_correct := (got_correct m0 \<or> 4 \<le> quality review),
                     interval := ni, ease_factor := nef, repetition_count := nrc,
                     next_review_date := d, GREMistake.mastered := (5 \<le> nrc)\<rparr>"
          and db': "db' = db\<lparr>gre_mistakes :=
                    replace_first (\<lambda>m. GREMistake.id' m = k) m' (gre_mistakes db)\<rparr>"
          by (auto simp: Let_def)
        have "GREMistake.id' m' = k" using m' idm by simp
        then have "find (\<lambda>m. GREMistake.id' m = k) (gre_mistakes db') = Some m'"
          unfolding db' using find_replace_first_same [OF Some, of m'] by simp
        then show ?thesis using Some False m' nrc by simp
      qed
    qed
  qed
next
  assume a: "find (\<lambda>m. GREMistake.id' m = j) (gre_mistakes db) = Some mj \<and> GREMistake.mastered mj"
  show "find (\<lambda>m. GREMistake.id' m = j) (gre_mistakes (snd (submit_review db now k review))) = Some mj"
  proof (cases "j = k")
    case True
    with a show ?thesis by (simp add: submit_review_already_mastered)
  next
    case False
    with a show ?thesis by (simp add: submit_review_keeps_other)
  qed
qed


theorem submit_review_mastered_rule_witness:
  "submit_review
      \<lparr>gre_mistakes = [example_mistake 1 ''Quant'' 4 False, example_mistake 2 ''Verbal'' 5 True],
       exam_sessions = []\<rparr> example_now 2 \<lparr>quality = 5\<rparr> =
     (Inl (HTTPException 400 ''This item is already mastered''),
      \<lparr>gre_mistakes = [example_mistake 1 ''Quant'' 4 False, example_mistake 2 ''Verbal'' 5 True],
       exam_sessions = []\<rparr>) \<and>
   (\<exists>m' db'. submit_review
      \<lparr>gre_mistakes = [example_mistake 1 ''Quant'' 4 False, example_mistake 2 ''Verbal'' 5 True],
       exam_sessions = []\<rparr> example_now 1 \<lparr>quality = 5\<rparr> = (Inr m', db') \<and>
      repetition_count m' = 5 \<and> GREMistake.mastered m' \<and>
      find (\<lambda>m. GREMistake.id' m = 2) (gre_mistakes db') = Some (example_mistake 2 ''Verbal'' 5 True))"
proof -
  let ?db = "\<lparr>gre_mistakes = [example_mistake 1 ''Quant'' 4 False, example_mistake 2 ''Verbal'' 5 True],
       exam_sessions = []\<rparr>"
  have f2: "find (\<lambda>m. GREMistake.id' m = 2) (gre_mistakes ?db) = Some (example_mistake 2 ''Verbal'' 5 True)
      \<and> GREMistake.mastered (example_mistake 2 ''Verbal'' 5 True)"
    by (simp add: example_mistake_def)
  obtain m' db' where r: "submit_review ?db example_now 1 \<lparr>quality = 5\<rparr> = (Inr m', db')"
    by (simp add: submit_review_def example_mistake_def example_now_def Let_def
        calculate_next_review_def timedelta_def datetime_add_def MAXORDINAL_def int_of_float_def)
  note rule1 = submit_review_mastered_rule [where db = ?db and now = example_now and k = 2
      and review = "\<lparr>quality = 5\<rparr>" and m = "example_mistake 2 ''Verbal'' 5 True"]
  note rule2 = submit_review_mastered_rule [where db = ?db and now = example_now and k = 1
      and review = "\<lparr>quality = 5\<rparr>" and m' = m' and db' = db' and j = 2
      and mj = "example_mistake 2 ''Verbal'' 5 True"]
  have a: "submit_review ?db example_now 2 \<lparr>quality = 5\<rparr> =
     (Inl (HTTPException 400 ''This item is already mastered''), ?db)"
    using rule1 f2 by blast
  from rule2 r obtain m0 where m0: "find (\<lambda>m. GREMistake.id' m = 1) (gre_mistakes ?db) = Some m0"
      "repetition_count m' = repetition_count m0 + 1"
      "GREMistake.mastered m' \<longleftrightarrow> 5 \<le> repetition_count m'"
    by blast
  from m0(1) have "m0 = example_mistake 1 ''Quant'' 4 False"
    by (simp add: example_mistake_def)
  then have rc: "repetition_count m' = 5" using m0(2) by (simp add: example_mistake_def)
  then have ms: "GREMistake.mastered m'" using m0(3) by simp
  from rule2 f2 have "find (\<lambda>m. GREMistake.id' m = 2)
      (gre_mistakes (snd (submit_review ?db example_now 1 \<lparr>quality = 5\<rparr>))) =
      Some (example_mistake 2 ''Verbal'' 5 True)"
    by blast
  then have keep: "find (\<lambda>m. GREMistake.id' m = 2) (gre_mistakes db') =
      Some (example_mistake 2 ''Verbal'' 5 True)"
    using r by simp
  show ?thesis using a r rc ms keep by blast
qed


section \<open>Exam answers\<close>

lemma submit_exam_answer_not_found:
  "find (\<lambda>e. ExamSession.id' e = exam_id) (exam_sessions db) = None \<Longrightarrow>
   submit_exam_answer db exam_id answer = (Inl (HTTPException 404 ''Exam session not found''), db)"
  by (simp add: submit_exam_answer_def)

lemma submit_exam_answer_completed:
  "find (\<lambda>e. ExamSession.id' e = exam_id) (exam_sessions db) = Some exam \<Longrightarrow>
   completed_at exam \<noteq> None \<Longrightarrow>
   submit_exam_answer db exam_id answer =
     (Inl (HTTPException 400 ''Exam session already completed''), db)"
  by (simp add: submit_exam_answer_def)

lemma count_updates_commute:
  "(e::ExamSession)\<lparr>incorrect_count := a, correct_count := b\<rparr> =
   e\<lparr>correct_count := b, incorrect_count := a\<rparr>"
  by (cases e) simp

lemma submit_exam_answer_open:
  assumes "find (\<lambda>e. ExamSession.id' e = exam_id) (exam_sessions db) = Some exam"
    and "completed_at exam = None"
  shows "submit_exam_answer db exam_id answer =
     (let exam' = exam\<lparr>answers := (answers exam)(str_int (mistake_id answer) \<mapsto> is_correct answer),
               correct_count := correct_count exam +
                 (case answers exam (str_int (mistake_id answer)) of
                    None \<Rightarrow> if is_correct answer then 1 else 0
                  | Some p \<Rightarrow> if p = is_correct answer then 0 else if p then - 1 else 1),
               incorrect_count := incorrect_count exam +
                 (case answers exam (str_int (mistake_id answer)) of
                    None \<Rightarrow> if is_correct answer then 0 else 1
                  | Some p \<Rightarrow> if p = is_correct answer then 0 else if p then 1 else - 1)\<rparr>
      in (Inr exam',
          db\<lparr>exam_sessions :=
               replace_first (\<lambda>e. ExamSession.id' e = exam_id) exam' (exam_sessions db)\<rparr>))"
proof (cases "answers exam (str_int (mistake_id answer))")
  case None
  then show ?thesis using assms
    by (cases "is_correct answer") (simp_all add: submit_exam_answer_def Let_def)
next
  case (Some p)
  then show ?thesis using assms
    by (cases "is_correct answer"; cases p)
       (simp_all add: submit_exam_answer_def Let_def count_updates_commute)
qed

lemma complete_exam_not_found:
  "find (\<lambda>e. ExamSession.id' e = exam_id) (exam_sessions db) = None \<Longrightarrow>
   complete_exam db now exam_id = (Inl (HTTPException 404 ''Exam session not found''), db)"
  by (simp add: complete_exam_def)

lemma complete_exam_completed:
  "find (\<lambda>e. ExamSession.id' e = exam_id) (exam_sessions db) = Some exam \<Longrightarrow>
   completed_at exam \<noteq> None \<Longrightarrow>
   complete_exam db now exam_id =
     (Inl (HTTPException 400 ''Exam session already completed''), db)"
  by (simp add: complete_exam_def)

lemma complete_exam_open:
  "find (\<lambda>e. ExamSession.id' e = exam_id) (exam_sessions db) = Some exam \<Longrightarrow>
   completed_at exam = None \<Longrightarrow>
   complete_exam db now exam_id =
     (Inr (exam\<lparr>completed_at := Some now\<rparr>),
      db\<lparr>exam_sessions := replace_first (\<lambda>e. ExamSession.id' e = exam_id)
            (exam\<lparr>completed_at := Some now\<rparr>) (exam_sessions db)\<rparr>)"
  by (simp add: complete_exam_def Let_def)

lemma submit_exam_answer_keeps_other:
  assumes "j \<noteq> exam_id"
  shows "find (\<lambda>e. ExamSession.id' e = j)
           (exam_sessions (snd (submit_exam_answer db exam_id answer))) =
         find (\<lambda>e. ExamSession.id' e = j) (exam_sessions db)"
proof (cases "find (\<lambda>e. ExamSession.id' e = exam_id) (exam_sessions db)")
  case None
  then show ?thesis by (simp add: submit_exam_answer_not_found)
next
  case (Some exam)
  have ide: "ExamSession.id' exam = exam_id" using find_SomeD [OF Some] .
  show ?thesis
  proof (cases "completed_at exam = None")
    case True
    show ?thesis
      unfolding submit_exam_answer_open [OF Some True]
      using assms ide by (simp add: Let_def find_by_id_replace_first_exam)
  next
    case False
    then show ?thesis using Some by (simp add: submit_exam_answer_completed)
  qed
qed

lemma complete_exam_keeps_other:
  assumes "j \<noteq> exam_id"
  shows "find (\<lambda>e. ExamSession.id' e = j) (exam_sessions (snd (complete_exam db now exam_id))) =
         find (\<lambda>e. ExamSession.id' e = j) (exam_sessions db)"
proof (cases "find (\<lambda>e. ExamSession.id' e = exam_id) (exam_sessions db)")
  case None
  then show ?thesis by (simp add: complete_exam_not_found)
next
  case (Some exam)
  have ide: "ExamSession.id' exam = exam_id" using find_SomeD [OF Some] .
  show ?thesis
  proof (cases "completed_at exam = None")
    case True
    show ?thesis
      unfolding complete_exam_open [OF Some True]
      using assms ide by (simp add: find_by_id_replace_first_exam)
  next
    case False
    then show ?thesis using Some by (simp add: complete_exam_completed)
  qed
qed





text \<open>
  C5. For an exam whose \<open>completed_at\<close> is set, \<open>submit_exam_answer\<close> and
  \<open>complete_exam\<close> both fail with the HTTP 400 ``already completed'' error and
  leave the database as it was; a completed exam is the same row after any answer
  submission or completion request, to any id; and \<open>complete_exam\<close> succeeds only on
  an exam whose \<open>completed_at\<close> was not set, which it sets to the current time. So
  \<open>completed_at\<close> is set at most once and nothing leads back from Completed.
\<close>

theorem completed_exam_is_final:
  "(find (\<lambda>e. ExamSession.id' e = exam_id) (exam_sessions db) = Some exam \<and>
    completed_at exam \<noteq> None \<longrightarrow>
      submit_exam_answer db exam_id answer =
        (Inl (HTTPException 400 ''Exam session already completed''), db) \<and>
      complete_exam db now exam_id =
        (Inl (HTTPException 400 ''Exam session already completed''), db)) \<and>
   (find (\<lambda>e. ExamSession.id' e = j) (exam_sessions db) = Some ej \<and> completed_at ej \<noteq> None \<longrightarrow>
      find (\<lambda>e. ExamSession.id' e = j)
        (exam_sessions (snd (submit_exam_answer db exam_id answer))) = Some ej \<and>
      find (\<lambda>e. ExamSession.id' e = j)
        (exam_sessions (snd (complete_exam db now exam_id))) = Some ej) \<and>
   (complete_exam db now exam_id = (Inr exam', db') \<longrightarrow>
      (\<exists>e. find (\<lambda>e. ExamSession.id' e = exam_id) (exam_sessions db) = Some e \<and>
           completed_at e = None \<and> exam' = e\<lparr>completed_at := Some now\<rparr>))"
proof (intro conjI impI)
  assume a: "find (\<lambda>e. ExamSession.id' e = exam_id) (exam_sessions db) = Some exam \<and>
    completed_at exam \<noteq> None"
  then show "submit_exam_answer db exam_id answer =
        (Inl (HTTPException 400 ''Exam session already completed''), db)"
    by (simp add: submit_exam_answer_completed)
  from a show "complete_exam db now exam_id =
        (Inl (HTTPException 400 ''Exam session already completed''), db)"
    by (simp add: complete_exam_completed)
next
  assume a: "find (\<lambda>e. ExamSession.id' e = j) (exam_sessions db) = Some ej \<and> completed_at ej \<noteq> None"
  show "find (\<lambda>e. ExamSession.id' e = j)
        (exam_sessions (snd (submit_exam_answer db exam_id answer))) = Some ej"
  proof (cases "j = exam_id")
    case True
    with a show ?thesis by (simp add: submit_exam_answer_completed)
  next
    case False
    with a show ?thesis by (simp add: submit_exam_answer_keeps_other)
  qed
  show "find (\<lambda>e. ExamSession.id' e = j)
        (exam_sessions (snd (complete_exam db now exam_id))) = Some ej"
  proof (cases "j = exam_id")
    case True
    with a show ?thesis by (simp add: complete_exam_completed)
  next
    case False
    with a show ?thesis by (simp add: complete_exam_keeps_other)
  qed
next
  assume r: "complete_exam db now exam_id = (Inr exam', db')"
  show "\<exists>e. find (\<lambda>e. ExamSession.id' e = exam_id) (exam_sessions db) = Some e \<and>
           completed_at e = None \<and> exam' = e\<lparr>completed_at := Some now\<rparr>"
  proof (cases "find (\<lambda>e. ExamSession.id' e = exam_id) (exam_sessions db)")
    case None
    with r show ?thesis by (simp add: complete_exam_not_found)
  next
    case (Some e)
    show ?thesis
    proof (cases "completed_at e = None")
      case True
      from r show ?thesis
        unfolding complete_exam_open [OF Some True] using Some True by auto
    next
      case False
      with r Some show ?thesis by (simp add: complete_exam_completed)
    qed
  qed
qed

theorem completed_exam_is_final_witness:
  "submit_exam_answer
     \<lparr>gre_mistakes = [],
      exam_sessions = [example_exam 1 [7] [(''7'', True)] 1 0 (Some example_now),
                       example_exam 2 [7] [] 0 0 None]\<rparr>
     1 \<lparr>mistake_id = 7, is_correct = False\<rparr> =
     (Inl (HTTPException 400 ''Exam session already completed''),
      \<lparr>gre_mistakes = [],
       exam_sessions = [example_exam 1 [7] [(''7'', True)] 1 0 (Some example_now),
                        example_exam 2 [7] [] 0 0 None]\<rparr>) \<and>
   complete_exam
     \<lparr>gre_mistakes = [],
      exam_sessions = [example_exam 1 [7] [(''7'', True)] 1 0 (Some example_now),
                       example_exam 2 [7] [] 0 0 None]\<rparr>
     example_now 1 =
     (Inl (HTTPException 400 ''Exam session already completed''),
      \<lparr>gre_mistakes = [],
       exam_sessions = [example_exam 1 [7] [(''7'', True)] 1 0 (Some example_now),
                        example_exam 2 [7] [] 0 0 None]\<rparr>) \<and>
   find (\<lambda>e. ExamSession.id' e = 1)
     (exam_sessions (snd (submit_exam_answer
        \<lparr>gre_mistakes = [],
         exam_sessions = [example_exam 1 [7] [(''7'', True)] 1 0 (Some example_now),
                          example_exam 2 [7] [] 0 0 None]\<rparr>
        2 \<lparr>mistake_id = 7, is_correct = False\<rparr>))) =
     Some (example_exam 1 [7] [(''7'', True)] 1 0 (Some example_now)) \<and>
   fst (complete_exam
     \<lparr>gre_mistakes = [],
      exam_sessions = [example_exam 1 [7] [(''7'', True)] 1 0 (Some example_now),
                       example_exam 2 [7] [] 0 0 None]\<rparr>
     example_now 2) = Inr ((example_exam 2 [7] [] 0 0 None)\<lparr>completed_at := Some example_now\<rparr>)"
proof -
  let ?e1 = "example_exam 1 [7] [(''7'', True)] 1 0 (Some example_now)"
  let ?e2 = "example_exam 2 [7] [] 0 0 None"
  let ?db = "\<lparr>gre_mistakes = [], exam_sessions = [?e1, ?e2]\<rparr>"
  have f: "find (\<lambda>e. ExamSession.id' e = 1) (exam_sessions ?db) = Some ?e1 \<and>
      completed_at ?e1 \<noteq> None"
    by (simp add: example_exam_def)
  have f2: "find (\<lambda>e. ExamSession.id' e = 2) (exam_sessions ?db) = Some ?e2"
    by (simp add: example_exam_def)
  obtain x db' where r: "complete_exam ?db example_now 2 = (Inr x, db')"
    by (simp add: complete_exam_def example_exam_def Let_def)
  note rule1 = completed_exam_is_final [where db = ?db and exam_id = 1 and exam = ?e1
      and answer = "\<lparr>mistake_id = 7, is_correct = False\<rparr>" and now = example_now]
  note rule2 = completed_exam_is_final [where db = ?db and exam_id = 2 and j = 1 and ej = ?e1
      and answer = "\<lparr>mistake_id = 7, is_correct = False\<rparr>" and now = example_now
      and exam' = x and db' = db']
  from rule1 f have a: "submit_exam_answer ?db 1 \<lparr>mistake_id = 7, is_correct = False\<rparr> =
     (Inl (HTTPException 400 ''Exam session already completed''), ?db)"
    and b: "complete_exam ?db example_now 1 =
     (Inl (HTTPException 400 ''Exam session already completed''), ?db)"
    by blast+
  from rule2 f have c: "find (\<lambda>e. ExamSession.id' e = 1)
     (exam_sessions (snd (submit_exam_answer ?db 2 \<lparr>mistake_id = 7, is_correct = False\<rparr>))) =
     Some ?e1"
    by blast
  from rule2 r obtain e where e: "find (\<lambda>e. ExamSession.id' e = 2) (exam_sessions ?db) = Some e"
    "x = e\<lparr>completed_at := Some example_now\<rparr>"
    by blast
  from e f2 have "x = ?e2\<lparr>completed_at := Some example_now\<rparr>" by simp
  then have d: "fst (complete_exam ?db example_now 2) = Inr (?e2\<lparr>completed_at := Some example_now\<rparr>)"
    using r by simp
  from a b c d show ?thesis by blast
qed


section \<open>The counters and the answers\<close>



















section \<open>Exam statistics\<close>





lemma for_mistake_ids_cong:
  assumes "gre_mistakes db1 = gre_mistakes db2"
    and "\<And>key. dict_get (answers e1) key False = dict_get (answers e2) key False"
  shows "for_mistake_ids db1 e1 ids s = for_mistake_ids db2 e2 ids s"
proof (induction ids arbitrary: s)
  case Nil
  show ?case by simp
next
  case (Cons i ids)
  obtain c x where s: "s = (c, x)" by (cases s)
  show ?case unfolding s
    by (cases "find (\<lambda>m. GREMistake.id' m = i) (gre_mistakes db2)")
       (simp_all add: Cons.IH assms)
qed

lemma for_mistake_ids_skip:
  "for_mistake_ids db e ids s =
   for_mistake_ids db e
     (filter (\<lambda>i. find (\<lambda>m. GREMistake.id' m = i) (gre_mistakes db) \<noteq> None) ids) s"
proof (induction ids arbitrary: s)
  case Nil
  show ?case by simp
next
  case (Cons i ids)
  obtain c x where s: "s = (c, x)" by (cases s)
  show ?case
  proof (cases "find (\<lambda>m. GREMistake.id' m = i) (gre_mistakes db)")
    case None
    then show ?thesis unfolding s using Cons.IH by simp
  next
    case (Some m)
    then show ?thesis unfolding s using Cons.IH by simp
  qed
qed

lemma for_all_exams_cong:
  assumes "list_all2 (\<lambda>e1 e2. completed_at e1 = completed_at e2 \<and>
             ExamSession.id' e1 = ExamSession.id' e2 \<and>
             (\<forall>s. for_mistake_ids db1 e1 (mistake_ids e1) s =
                  for_mistake_ids db2 e2 (mistake_ids e2) s)) xs ys"
  shows "for_all_exams db1 (filter (\<lambda>e. completed_at e \<noteq> None) xs) c =
         for_all_exams db2 (filter (\<lambda>e. completed_at e \<noteq> None) ys) c \<and>
         length (filter (\<lambda>e. completed_at e \<noteq> None) xs) =
         length (filter (\<lambda>e. completed_at e \<noteq> None) ys)"
  using assms
proof (induction xs ys arbitrary: c rule: list_all2_induct)
  case Nil
  show ?case by simp
next
  case (Cons x xs y ys)
  from Cons.hyps(1) have same_id: "ExamSession.id' x = ExamSession.id' y"
    and same_done: "completed_at x = completed_at y"
    and scan: "\<And>s. for_mistake_ids db1 x (mistake_ids x) s =
                    for_mistake_ids db2 y (mistake_ids y) s"
    by blast+
  show ?case
  proof (cases "completed_at y = None")
    case True
    then show ?thesis using same_done Cons.IH by simp
  next
    case False
    obtain c' x' where step: "for_mistake_ids db2 y (mistake_ids y)
        (c, \<lparr>quant_in_exam = 0, quant_correct_in_exam = 0,
             verbal_in_exam = 0, verbal_correct_in_exam = 0\<rparr>) = (c', x')"
      by (cases "for_mistake_ids db2 y (mistake_ids y)
        (c, \<lparr>quant_in_exam = 0, quant_correct_in_exam = 0,
             verbal_in_exam = 0, verbal_correct_in_exam = 0\<rparr>)")
    show ?thesis
      using False same_done Cons.IH
      by (simp add: scan step same_id Let_def)
  qed
qed

lemma get_exam_statistics_cong:
  assumes "gre_mistakes db1 = gre_mistakes db2"
    and "list_all2 (\<lambda>e1 e2. completed_at e1 = completed_at e2 \<and>
             ExamSession.id' e1 = ExamSession.id' e2 \<and>
             (\<forall>s. for_mistake_ids db1 e1 (mistake_ids e1) s =
                  for_mistake_ids db2 e2 (mistake_ids e2) s))
           (exam_sessions db1) (exam_sessions db2)"
  shows "get_exam_statistics db1 = get_exam_statistics db2"
  unfolding get_exam_statistics_def
  using for_all_exams_cong [OF assms(2)] assms(1) by (simp add: Let_def)







text \<open>
  C9. A mistake id of an exam that matches no stored mistake is skipped by the loop
  without a change to any counter, so the statistics are those of the database in
  which every exam lists only its stored mistake ids: such an id adds to no total, no
  correct or incorrect count and no set of exam ids, and a section's totals can be
  smaller than the exam's list of ids.
\<close>

theorem get_exam_statistics_skips_unstored:
  "(find (\<lambda>m. GREMistake.id' m = i) (gre_mistakes db) = None \<longrightarrow>
      for_mistake_ids db exam (i # ids) s = for_mistake_ids db exam ids s) \<and>
   get_exam_statistics db =
   get_exam_statistics
     (db\<lparr>exam_sessions :=
           map (\<lambda>e. e\<lparr>mistake_ids :=
                  filter (\<lambda>i. find (\<lambda>m. GREMistake.id' m = i) (gre_mistakes db) \<noteq> None)
                    (mistake_ids e)\<rparr>)
             (exam_sessions db)\<rparr>)"
proof (rule conjI)
  show "find (\<lambda>m. GREMistake.id' m = i) (gre_mistakes db) = None \<longrightarrow>
      for_mistake_ids db exam (i # ids) s = for_mistake_ids db exam ids s"
    by (cases s) simp
next
  let ?keep = "\<lambda>e. e\<lparr>mistake_ids :=
                  filter (\<lambda>i. find (\<lambda>m. GREMistake.id' m = i) (gre_mistakes db) \<noteq> None)
                    (mistake_ids e)\<rparr>"
  let ?db2 = "db\<lparr>exam_sessions := map ?keep (exam_sessions db)\<rparr>"
  let ?R = "\<lambda>e1 e2. completed_at e1 = completed_at e2 \<and>
             ExamSession.id' e1 = ExamSession.id' e2 \<and>
             (\<forall>s. for_mistake_ids db e1 (mistake_ids e1) s =
                  for_mistake_ids ?db2 e2 (mistake_ids e2) s)"
  have g: "gre_mistakes db = gre_mistakes ?db2" by simp
  have kept: "?R e (?keep e)" for e
  proof -
    have "for_mistake_ids db e (mistake_ids e) s =
          for_mistake_ids ?db2 (?keep e) (mistake_ids (?keep e)) s" for s
    proof -
      have "for_mistake_ids db e (mistake_ids e) s =
            for_mistake_ids db e (mistake_ids (?keep e)) s"
        using for_mistake_ids_skip [of db e "mistake_ids e" s] by simp
      also have "\<dots> = for_mistake_ids ?db2 (?keep e) (mistake_ids (?keep e)) s"
        by (rule for_mistake_ids_cong [OF g]) simp
      finally show ?thesis .
    qed
    then show ?thesis by simp
  qed
  have "list_all2 ?R (exam_sessions db) (map ?keep (exam_sessions db))"
    unfolding list_all2_map2 by (rule list_all2_refl) (rule kept)
  then have "list_all2 ?R (exam_sessions db) (exam_sessions ?db2)" by simp
  from get_exam_statistics_cong [OF g this]
  show "get_exam_statistics db = get_exam_statistics ?db2" .
qed

theorem get_exam_statistics_skips_unstored_witness:
  "find (\<lambda>m. GREMistake.id' m = 9)
     [example_mistake 1 ''Quant'' 0 False, example_mistake 5 ''Verbal'' 0 False] = None \<and>
   get_exam_statistics
     \<lparr>gre_mistakes = [example_mistake 1 ''Quant'' 0 False, example_mistake 5 ''Verbal'' 0 False],
      exam_sessions = [example_exam 1 [9, 1, 5] [(''9'', True), (''1'', True)] 2 0
                         (Some example_now)]\<rparr> =
   get_exam_statistics
     \<lparr>gre_mistakes = [example_mistake 1 ''Quant'' 0 False, example_mistake 5 ''Verbal'' 0 False],
      exam_sessions = [(example_exam 1 [9, 1, 5] [(''9'', True), (''1'', True)] 2 0
                         (Some example_now))\<lparr>mistake_ids := [1, 5]\<rparr>]\<rparr> \<and>
   section_statistics.total_problems (quant (get_exam_statistics
     \<lparr>gre_mistakes = [example_mistake 1 ''Quant'' 0 False, example_mistake 5 ''Verbal'' 0 False],
      exam_sessions = [example_exam 1 [9, 1, 5] [(''9'', True), (''1'', True)] 2 0
                         (Some example_now)]\<rparr>)) +
   section_statistics.total_problems (verbal (get_exam_statistics
     \<lparr>gre_mistakes = [example_mistake 1 ''Quant'' 0 False, example_mistake 5 ''Verbal'' 0 False],
      exam_sessions = [example_exam 1 [9, 1, 5] [(''9'', True), (''1'', True)] 2 0
                         (Some example_now)]\<rparr>)) = 2 \<and>
   length (mistake_ids (example_exam 1 [9, 1, 5] [(''9'', True), (''1'', True)] 2 0
                         (Some example_now))) = 3"
proof -
  let ?ms = "[example_mistake 1 ''Quant'' 0 False, example_mistake 5 ''Verbal'' 0 False]"
  let ?e = "example_exam 1 [9, 1, 5] [(''9'', True), (''1'', True)] 2 0 (Some example_now)"
  let ?e' = "?e\<lparr>mistake_ids := [1, 5]\<rparr>"
  let ?db = "\<lparr>gre_mistakes = ?ms, exam_sessions = [?e]\<rparr>"
  let ?db' = "\<lparr>gre_mistakes = ?ms, exam_sessions = [?e']\<rparr>"
  have none: "find (\<lambda>m. GREMistake.id' m = 9) ?ms = None"
    by (simp add: example_mistake_def)
  have keep: "?db\<lparr>exam_sessions :=
           map (\<lambda>e. e\<lparr>mistake_ids :=
                  filter (\<lambda>i. find (\<lambda>m. GREMistake.id' m = i) (gre_mistakes ?db) \<noteq> None)
                    (mistake_ids e)\<rparr>)
             (exam_sessions ?db)\<rparr> = ?db'"
    by (simp add: example_exam_def example_mistake_def)
  from get_exam_statistics_skips_unstored [where db = ?db]
  have same: "get_exam_statistics ?db = get_exam_statistics ?db'"
    unfolding keep by blast
  have "section_statistics.total_problems (quant (get_exam_statistics ?db')) = 1"
    "section_statistics.total_problems (verbal (get_exam_statistics ?db')) = 1"
    by (simp_all add: get_exam_statistics_def example_exam_def example_mistake_def
        Let_def dict_get_def str_int_def digit_char_def)
  then have total: "section_statistics.total_problems (quant (get_exam_statistics ?db)) +
      section_statistics.total_problems (verbal (get_exam_statistics ?db)) = 2"
    unfolding same by simp
  have len: "length (mistake_ids ?e) = 3" by (simp add: example_exam_def)
  from none same total len show ?thesis by blast
qed


end
